theory Spec2Isabelle
  imports Main "HOL-Library.Product_Lexorder" "HOL-Library.Multiset"
begin

section \<open>Strings and the library functions the bot calls\<close>

text \<open>
  \<^verbatim>\<open>bot.py\<close> works on Python \<^verbatim>\<open>str\<close> values: sequences of Unicode code points
  (Cyrillic surnames, en and em dashes). A HOL \<open>char\<close> is a byte, so a string is
  modelled as the list of its code points. \<open>ascii\<close> writes an ASCII literal.
\<close>

type_synonym ustring = "nat list"

definition ascii :: "string \<Rightarrow> ustring" where
  "ascii s = map of_char s"

datatype error = TypeError | KeyError | ValueError | IndexError

subsection \<open>Character classes\<close>

text \<open>
  \<^verbatim>\<open>str.strip()\<close>, \<^verbatim>\<open>str.split()\<close> and the pattern class \<^verbatim>\<open>\s\<close> all use CPython's
  \<^verbatim>\<open>Py_UNICODE_ISSPACE\<close>.
\<close>

definition is_space :: "nat \<Rightarrow> bool" where
  "is_space c =
     ((0x9 \<le> c \<and> c \<le> 0xD) \<or> (0x1C \<le> c \<and> c \<le> 0x20) \<or> c = 0x85 \<or> c = 0xA0
      \<or> c = 0x1680 \<or> (0x2000 \<le> c \<and> c \<le> 0x200A) \<or> c = 0x2028 \<or> c = 0x2029
      \<or> c = 0x202F \<or> c = 0x205F \<or> c = 0x3000)"

text \<open>
  The pattern class \<^verbatim>\<open>\d\<close> and \<^verbatim>\<open>int()\<close> use the decimal digits of the Unicode
  database (category Nd; the table is that of Unicode 14, CPython 3.11). They come in
  blocks of ten consecutive code points, listed by their first code point; the value of
  a digit is its offset in its block.
\<close>

definition decimal_blocks :: "nat list" where
  "decimal_blocks =
     [48, 1632, 1776, 1984, 2406, 2534, 2662, 2790, 2918, 3046, 3174, 3302, 3430, 3558,
      3664, 3792, 3872, 4160, 4240, 6112, 6160, 6470, 6608, 6784, 6800, 6992, 7088, 7232,
      7248, 42528, 43216, 43264, 43472, 43504, 43600, 44016, 65296, 66720, 68912, 69734,
      69872, 69942, 70096, 70384, 70736, 70864, 71248, 71360, 71472, 71904, 72016, 72784,
      73040, 73120, 92768, 92864, 93008, 120782, 120792, 120802, 120812, 120822, 123200,
      123632, 125264, 130032]"

definition to_decimal :: "nat \<Rightarrow> nat option" where
  "to_decimal c =
     (case find (\<lambda>s. s \<le> c \<and> c < s + 10) decimal_blocks of
        None \<Rightarrow> None
      | Some s \<Rightarrow> Some (c - s))"

definition is_decimal :: "nat \<Rightarrow> bool" where
  "is_decimal c = (to_decimal c \<noteq> None)"

text \<open>
  \<^verbatim>\<open>str.isdigit()\<close> accepts more than \<^verbatim>\<open>int()\<close> reads: the decimal digits and the code
  points whose numeric type is Digit (superscripts, subscripts, circled digits, ...),
  listed as inclusive ranges.
\<close>

definition other_digit_ranges :: "(nat \<times> nat) list" where
  "other_digit_ranges =
     [(178, 179), (185, 185), (4969, 4977), (6618, 6618), (8304, 8304), (8308, 8313),
      (8320, 8329), (9312, 9320), (9332, 9340), (9352, 9360), (9450, 9450), (9461, 9469),
      (9471, 9471), (10102, 10110), (10112, 10120), (10122, 10130), (68160, 68163),
      (69216, 69224), (69714, 69722), (127232, 127242)]"

definition is_digit :: "nat \<Rightarrow> bool" where
  "is_digit c = (is_decimal c \<or> list_ex (\<lambda>(lo, hi). lo \<le> c \<and> c \<le> hi) other_digit_ranges)"

text \<open>
  The letters of the pattern, its first class: the Cyrillic ranges U+0430..U+044F (small)
  and U+0410..U+042F (capital), the letters U+0451 and U+0401 (small and capital io), and
  \<^verbatim>\<open>a-zA-Z\<close>.
\<close>

definition is_letter :: "nat \<Rightarrow> bool" where
  "is_letter c =
     ((0x430 \<le> c \<and> c \<le> 0x44F) \<or> c = 0x451 \<or> (0x410 \<le> c \<and> c \<le> 0x42F) \<or> c = 0x401
      \<or> (0x61 \<le> c \<and> c \<le> 0x7A) \<or> (0x41 \<le> c \<and> c \<le> 0x5A))"

text \<open>The pattern's second class adds \<^verbatim>\<open>\s\<close> and \<^verbatim>\<open>\-\<close> to these letters.\<close>

definition is_name_char :: "nat \<Rightarrow> bool" where
  "is_name_char c = (is_letter c \<or> is_space c \<or> c = 0x2D)"

text \<open>The separator class, written \<open>D\<close> below: hyphen-minus, en dash (U+2013), em dash (U+2014).\<close>

definition is_dash :: "nat \<Rightarrow> bool" where
  "is_dash c = (c = 0x2D \<or> c = 0x2013 \<or> c = 0x2014)"

subsection \<open>\<^verbatim>\<open>str\<close> methods\<close>

definition strip :: "ustring \<Rightarrow> ustring" where
  "strip s = rev (dropWhile is_space (rev (dropWhile is_space s)))"

text \<open>\<^verbatim>\<open>s.split(sep)\<close> for a one-character separator; the accumulator is the current piece.\<close>

fun split_acc :: "nat \<Rightarrow> ustring \<Rightarrow> ustring \<Rightarrow> ustring list" where
  "split_acc sep acc [] = [acc]"
| "split_acc sep acc (c # cs) =
     (if c = sep then acc # split_acc sep [] cs else split_acc sep (acc @ [c]) cs)"

definition split_on :: "nat \<Rightarrow> ustring \<Rightarrow> ustring list" where
  "split_on sep s = split_acc sep [] s"

text \<open>\<^verbatim>\<open>s.split()\<close>: pieces between runs of whitespace, no empty piece.\<close>

fun split_ws_acc :: "ustring \<Rightarrow> ustring \<Rightarrow> ustring list" where
  "split_ws_acc acc [] = (if acc = [] then [] else [acc])"
| "split_ws_acc acc (c # cs) =
     (if is_space c then (if acc = [] then split_ws_acc [] cs else acc # split_ws_acc [] cs)
      else split_ws_acc (acc @ [c]) cs)"

definition split_ws :: "ustring \<Rightarrow> ustring list" where
  "split_ws s = split_ws_acc [] s"

text \<open>
  \<^verbatim>\<open>lower()\<close> and \<^verbatim>\<open>capitalize()\<close> are applied to names only, and a name is group 1 of the
  pattern: letters of \<open>is_letter\<close>, whitespace and hyphens. The case mapping is written
  out for these letters; other code points are left as they are.
\<close>

definition lower_cp :: "nat \<Rightarrow> nat" where
  "lower_cp c =
     (if (0x41 \<le> c \<and> c \<le> 0x5A) \<or> (0x410 \<le> c \<and> c \<le> 0x42F) then c + 32
      else if c = 0x401 then 0x451 else c)"

definition upper_cp :: "nat \<Rightarrow> nat" where
  "upper_cp c =
     (if (0x61 \<le> c \<and> c \<le> 0x7A) \<or> (0x430 \<le> c \<and> c \<le> 0x44F) then c - 32
      else if c = 0x451 then 0x401 else c)"

definition lower :: "ustring \<Rightarrow> ustring" where
  "lower s = map lower_cp s"

definition capitalize :: "ustring \<Rightarrow> ustring" where
  "capitalize s = (case s of [] \<Rightarrow> [] | c # cs \<Rightarrow> upper_cp c # map lower_cp cs)"

definition isdigit :: "ustring \<Rightarrow> bool" where
  "isdigit s = (s \<noteq> [] \<and> list_all is_digit s)"

text \<open>
  \<^verbatim>\<open>int(s)\<close>, base ten: whitespace around the literal is skipped (the ASCII separators
  U+001C..U+001F are whitespace for \<^verbatim>\<open>strip\<close> but not for \<^verbatim>\<open>int\<close>), then an optional
  sign, then decimal digits, where single underscores may stand between digits. \<open>None\<close>
  is \<^verbatim>\<open>ValueError\<close>. \<open>prev\<close> tells whether the character before was a digit.
  CPython 3.11 and later also reject a literal of more than 4300 digits; a chat message
  holds at most 4096 characters, so the limit is out of reach and is left out.
\<close>

definition is_int_space :: "nat \<Rightarrow> bool" where
  "is_int_space c = (is_space c \<and> (c < 0x1C \<or> 0x1F < c))"

fun int_digits :: "int \<Rightarrow> bool \<Rightarrow> ustring \<Rightarrow> int option" where
  "int_digits acc prev [] = (if prev then Some acc else None)"
| "int_digits acc prev (c # cs) =
     (case to_decimal c of
        Some d \<Rightarrow> int_digits (acc * 10 + int d) True cs
      | None \<Rightarrow> if c = 0x5F \<and> prev then int_digits acc False cs else None)"

definition py_int :: "ustring \<Rightarrow> int option" where
  "py_int s =
     (case rev (dropWhile is_int_space (rev (dropWhile is_int_space s))) of
        [] \<Rightarrow> None
      | c # cs \<Rightarrow>
          if c = 0x2B then int_digits 0 False cs
          else if c = 0x2D then map_option uminus (int_digits 0 False cs)
          else int_digits 0 False (c # cs))"

section \<open>The manifest parser\<close>

record delivery =
  name :: ustring
  surname :: ustring
  order :: ustring
  floor :: "int option"
  room :: "ustring option"

text \<open>
  The pattern of \<^verbatim>\<open>parse_delivery\<close> is
  \<^verbatim>\<open>^([L][L\s\-]+?)\s*[D]?\s*(\d{3,6})\s*$\<close> with \<open>L\<close> the letters and
  \<open>D\<close> the dashes above, matched with \<^verbatim>\<open>re.match\<close>.

  \<open>match_tail\<close> is the part after group 1, \<^verbatim>\<open>\s*[D]?\s*(\d{3,6})\s*$\<close>, and returns
  group 2. Whitespace, dashes and decimal digits are pairwise disjoint classes
  (\<open>decimal_not_space\<close>, \<open>decimal_not_dash\<close>, \<open>space_not_dash\<close> below), so each greedy
  quantifier takes what it can and backtracking into it cannot turn a failure into a
  match.
\<close>

definition match_tail :: "ustring \<Rightarrow> ustring option" where
  "match_tail s =
     (let s1 = dropWhile is_space s;
          s2 = (case s1 of [] \<Rightarrow> s1 | c # r \<Rightarrow> if is_dash c then r else s1);
          s3 = dropWhile is_space s2;
          ds = takeWhile is_decimal (take 6 s3);
          s4 = drop (length ds) s3
      in if 3 \<le> length ds \<and> dropWhile is_space s4 = [] then Some ds else None)"

text \<open>
  Group 1 ends with the lazy \<^verbatim>\<open>[L\s\-]+?\<close>: it takes one character of the class, tries
  the rest of the pattern, and only on failure takes one more. \<open>acc\<close> is group 1 so far.
\<close>

fun lazy_name :: "ustring \<Rightarrow> ustring \<Rightarrow> (ustring \<times> ustring) option" where
  "lazy_name acc [] = None"
| "lazy_name acc (c # cs) =
     (if is_name_char c then
        (case match_tail cs of
           Some ds \<Rightarrow> Some (acc @ [c], ds)
         | None \<Rightarrow> lazy_name (acc @ [c]) cs)
      else None)"

definition re_match :: "ustring \<Rightarrow> (ustring \<times> ustring) option" where
  "re_match line =
     (case line of
        [] \<Rightarrow> None
      | c # cs \<Rightarrow> if is_letter c then lazy_name [c] cs else None)"

text \<open>
  The loop of \<^verbatim>\<open>parse_delivery\<close> over the lines, \<open>results\<close> being the list built so far.
  \<^verbatim>\<open>raw_name.split()[0]\<close> raises \<^verbatim>\<open>IndexError\<close> on a name without a token.
\<close>

fun parse_lines :: "ustring list \<Rightarrow> delivery list \<Rightarrow> error + delivery list" where
  "parse_lines [] results = Inr results"
| "parse_lines (l # ls) results =
     (let line = strip l in
      if line = [] then parse_lines ls results
      else
        (case re_match line of
           None \<Rightarrow> parse_lines ls results
         | Some (g1, g2) \<Rightarrow>
             (let raw_name = strip g1; order = strip g2 in
              case split_ws raw_name of
                [] \<Rightarrow> Inl IndexError
              | tok # _ \<Rightarrow>
                  parse_lines ls
                    (results @ [\<lparr>name = raw_name, surname = lower tok, order = order,
                                 floor = None, room = None\<rparr>]))))"

definition parse_delivery :: "ustring \<Rightarrow> error + delivery list" where
  "parse_delivery text = parse_lines (split_on 0xA (strip text)) []"

section \<open>The route\<close>

text \<open>
  The sort key of \<^verbatim>\<open>optimize_route\<close>. \<open>room_number\<close> is \<^verbatim>\<open>int(room.split(".")[1])\<close>,
  with \<open>None\<close> for any exception (a label without a dot, a segment that \<^verbatim>\<open>int\<close>
  rejects); the bare \<^verbatim>\<open>except\<close> turns it into 99.
\<close>

definition room_number :: "ustring \<Rightarrow> int option" where
  "room_number r = (case split_on 0x2E r of _ # seg # _ \<Rightarrow> py_int seg | _ \<Rightarrow> None)"

definition key :: "delivery \<Rightarrow> int \<times> int" where
  "key d =
     (let fl = (case floor d of None \<Rightarrow> 99 | Some f \<Rightarrow> f);
          rm = (case room d of None \<Rightarrow> ascii ''99.99'' | Some r \<Rightarrow> r);
          room_num = (case room_number rm of None \<Rightarrow> 99 | Some n \<Rightarrow> n)
      in (fl, room_num))"

text \<open>
  \<^verbatim>\<open>sorted(deliveries, key=key)\<close>: Python's \<^verbatim>\<open>sorted\<close> is a stable sort, and keys are
  compared as tuples, that is lexicographically. \<open>sort_key\<close> is the stable insertion
  sort of the list library, on the lexicographic order of pairs.
\<close>

definition optimize_route :: "delivery list \<Rightarrow> delivery list" where
  "optimize_route deliveries = sort_key key deliveries"

text \<open>
  The buttons of \<^verbatim>\<open>build_route_keyboard\<close>, by their callback data: \<^verbatim>\<open>done:<i>\<close> for each
  position and a final \<^verbatim>\<open>done:clear\<close>.
\<close>

datatype action = Done nat | DoneClear

definition build_route_keyboard :: "delivery list \<Rightarrow> action list" where
  "build_route_keyboard deliveries = map Done [0..<length deliveries] @ [DoneClear]"

section \<open>Sessions, the directory and the handlers\<close>

record session =
  deliveries :: "delivery list"
  pending :: "delivery list"
  current :: "delivery option"

text \<open>
  A directory record as \<^verbatim>\<open>got_room\<close>, its only writer, stores it. Readers fetch
  \<^verbatim>\<open>full_name\<close> with a default, so it may be absent.
\<close>

record employee =
  full_name :: "ustring option"
  emp_floor :: int
  emp_room :: ustring

text \<open>
  \<^verbatim>\<open>context.user_data\<close> of one requester, with the keys the bot uses. \<open>manual_add\<close>
  is only ever set to \<^verbatim>\<open>True\<close>; \<open>False\<close> stands for the absent key.
\<close>

record user_data =
  session :: "session option"
  manual_add :: bool
  manual_name :: "ustring option"
  manual_floor :: "int option"

text \<open>What a handler reads and writes: the requester's data and \<^verbatim>\<open>employees.json\<close>.\<close>

record world =
  user_data :: user_data
  employees :: "ustring \<rightharpoonup> employee"

text \<open>
  The messages a handler sends, each with the values its text is formatted from.
  \<open>RouteMessage\<close> is \<^verbatim>\<open>format_route(route)\<close> sent with the route's keyboard.
\<close>

datatype reply =
    UnrecognizedFormat
  | RouteMessage "delivery list" "action list"
  | AskFloor ustring
  | RepromptFloor
  | FloorAccepted ustring
  | Saved ustring int ustring
  | AskNext ustring
  | RouteCleared
  | AskSurname
  | ManualAskFloor ustring
  | ManualReprompt
  | ManualFloorAccepted ustring
  | Answer
  | EditCleared
  | EditAllDone ustring
  | EditDelivered ustring "delivery list" "action list"

text \<open>
  The value a handler returns (\<open>RetNone\<close> is Python's \<^verbatim>\<open>None\<close>, \<open>END\<close> is
  \<^verbatim>\<open>ConversationHandler.END\<close>), or the exception it raises. A handler's result also
  holds the world as the handler leaves it, also when it raises, and the messages sent.
\<close>

datatype retval = ASK_FLOOR | ASK_ROOM | END | RetNone

datatype outcome = Returns retval | Raises error

type_synonym result = "outcome \<times> world \<times> reply list"

definition empty_session :: session where
  "empty_session = \<lparr>deliveries = [], pending = [], current = None\<rparr>"

definition put_session :: "world \<Rightarrow> session \<Rightarrow> world" where
  "put_session w s = w\<lparr>user_data := (user_data w)\<lparr>session := Some s\<rparr>\<rparr>"

definition get_session :: "world \<Rightarrow> session \<times> world" where
  "get_session w =
     (case session (user_data w) of
        None \<Rightarrow> (empty_session, put_session w empty_session)
      | Some s \<Rightarrow> (s, w))"

definition clear_session :: "world \<Rightarrow> world" where
  "clear_session w = put_session w empty_session"

text \<open>
  The classification loop of \<^verbatim>\<open>handle_text\<close>. \<open>stamp\<close> is the dictionary display
  \<^verbatim>\<open>{**item, "name": ..., "floor": emp["floor"], "room": emp["room"]}\<close>.
\<close>

definition stamp :: "employee \<Rightarrow> delivery \<Rightarrow> delivery" where
  "stamp emp item =
     item\<lparr>name := (case full_name emp of None \<Rightarrow> capitalize (name item) | Some n \<Rightarrow> n),
          floor := Some (emp_floor emp),
          room := Some (emp_room emp)\<rparr>"

fun classify ::
  "(ustring \<rightharpoonup> employee) \<Rightarrow> delivery list \<Rightarrow> delivery list \<Rightarrow> delivery list
     \<Rightarrow> delivery list \<times> delivery list" where
  "classify db [] known unknown = (known, unknown)"
| "classify db (item # parsed) known unknown =
     (case db (surname item) of
        Some emp \<Rightarrow> classify db parsed (known @ [stamp emp item]) unknown
      | None \<Rightarrow> classify db parsed known (unknown @ [item]))"

definition handle_text :: "world \<Rightarrow> ustring \<Rightarrow> result" where
  "handle_text w msg =
     (let text = strip msg in
      case parse_delivery text of
        Inl e \<Rightarrow> (Raises e, w, [])
      | Inr parsed \<Rightarrow>
          if parsed = [] then (Returns END, w, [UnrecognizedFormat])
          else
            (let db = employees w;
                 (s0, w1) = get_session w;
                 s1 = s0\<lparr>deliveries := [], pending := [], current := None\<rparr>;
                 (known, unknown) = classify db parsed [] [];
                 s2 = s1\<lparr>deliveries := known\<rparr>
             in case unknown of
                  [] \<Rightarrow>
                    (let route = optimize_route known in
                     (Returns END, put_session w1 (s2\<lparr>deliveries := route\<rparr>),
                      [RouteMessage route (build_route_keyboard route)]))
                | item # rest \<Rightarrow>
                    (Returns ASK_FLOOR,
                     put_session w1 (s2\<lparr>pending := rest, current := Some item\<rparr>),
                     [AskFloor (capitalize (name item))])))"

text \<open>
  In \<^verbatim>\<open>session["current"]["floor"] = int(text)\<close> the right-hand side is evaluated first
  (\<^verbatim>\<open>ValueError\<close>), then the subscription of \<^verbatim>\<open>None\<close> fails (\<^verbatim>\<open>TypeError\<close>).
\<close>

definition got_floor :: "world \<Rightarrow> ustring \<Rightarrow> result" where
  "got_floor w msg =
     (let text = strip msg in
      if \<not> isdigit text then (Returns ASK_FLOOR, w, [RepromptFloor])
      else
        (let (s, w1) = get_session w in
         case py_int text of
           None \<Rightarrow> (Raises ValueError, w1, [])
         | Some n \<Rightarrow>
             (case current s of
                None \<Rightarrow> (Raises TypeError, w1, [])
              | Some item \<Rightarrow>
                  (Returns ASK_ROOM,
                   put_session w1 (s\<lparr>current := Some (item\<lparr>floor := Some n\<rparr>)\<rparr>),
                   [FloorAccepted text]))))"

definition got_room :: "world \<Rightarrow> ustring \<Rightarrow> result" where
  "got_room w msg =
     (let rm = strip msg;
          (s, w1) = get_session w
      in case current s of
           None \<Rightarrow> (Raises TypeError, w1, [])
         | Some item0 \<Rightarrow>
             (let item = item0\<lparr>room := Some rm\<rparr>;
                  s1 = s\<lparr>current := Some item\<rparr>
              in case floor item of
                   None \<Rightarrow> (Raises KeyError, put_session w1 s1, [])
                 | Some fl \<Rightarrow>
                     (let db = (employees w1)(surname item \<mapsto>
                                 \<lparr>full_name = Some (capitalize (name item)),
                                  emp_floor = fl, emp_room = rm\<rparr>);
                          s2 = s1\<lparr>deliveries := deliveries s1 @
                                 [\<lparr>name = capitalize (name item), surname = surname item,
                                   order = order item, floor = Some fl, room = Some rm\<rparr>]\<rparr>;
                          saved = Saved (capitalize (name item)) fl rm
                      in case pending s2 of
                           next_item # rest \<Rightarrow>
                             (Returns ASK_FLOOR,
                              (put_session w1 (s2\<lparr>pending := rest, current := Some next_item\<rparr>))
                                \<lparr>employees := db\<rparr>,
                              [saved, AskNext (capitalize (name next_item))])
                         | [] \<Rightarrow>
                             (let route = optimize_route (deliveries s2) in
                              (Returns END,
                               (put_session w1 (s2\<lparr>deliveries := route\<rparr>))\<lparr>employees := db\<rparr>,
                               [saved, RouteMessage route (build_route_keyboard route)])))))"

definition cmd_clear :: "world \<Rightarrow> result" where
  "cmd_clear w = (Returns RetNone, clear_session w, [RouteCleared])"

definition cmd_add :: "world \<Rightarrow> result" where
  "cmd_add w = (Returns ASK_FLOOR, w\<lparr>user_data := (user_data w)\<lparr>manual_add := True\<rparr>\<rparr>, [AskSurname])"

definition got_floor_manual :: "world \<Rightarrow> ustring \<Rightarrow> result" where
  "got_floor_manual w msg =
     (if manual_add (user_data w) \<and> manual_name (user_data w) = None then
        (let nm = strip msg in
         (Returns ASK_FLOOR, w\<lparr>user_data := (user_data w)\<lparr>manual_name := Some nm\<rparr>\<rparr>,
          [ManualAskFloor (capitalize nm)]))
      else
        (let text = strip msg in
         if \<not> isdigit text then (Returns ASK_FLOOR, w, [ManualReprompt])
         else
           (case py_int text of
              None \<Rightarrow> (Raises ValueError, w, [])
            | Some n \<Rightarrow>
                (Returns ASK_ROOM, w\<lparr>user_data := (user_data w)\<lparr>manual_floor := Some n\<rparr>\<rparr>,
                 [ManualFloorAccepted text]))))"

text \<open>
  \<^verbatim>\<open>deliveries.pop(idx)\<close>: a negative index counts from the end of the list; an index
  out of range on either side raises \<^verbatim>\<open>IndexError\<close>.
\<close>

definition list_pop :: "'a list \<Rightarrow> int \<Rightarrow> error + ('a \<times> 'a list)" where
  "list_pop xs i =
     (let n = int (length xs);
          j = (if i < 0 then i + n else i)
      in if j < 0 \<or> n \<le> j then Inl IndexError
         else Inr (xs ! nat j, take (nat j) xs @ drop (Suc (nat j)) xs))"

definition cb_done :: "world \<Rightarrow> ustring \<Rightarrow> result" where
  "cb_done w data =
     (if data = ascii ''done:clear'' then
        (Returns RetNone, clear_session w, [Answer, EditCleared])
      else
        (case py_int (drop 5 data) of
           None \<Rightarrow> (Raises ValueError, w, [Answer])
         | Some idx \<Rightarrow>
             (let (s, w1) = get_session w;
                  ds = deliveries s
              in if int (length ds) \<le> idx then (Returns RetNone, w1, [Answer])
                 else
                   (case list_pop ds idx of
                      Inl e \<Rightarrow> (Raises e, w1, [Answer])
                    | Inr (done, ds') \<Rightarrow>
                        (let w2 = put_session w1 (s\<lparr>deliveries := ds'\<rparr>) in
                         if ds' = [] then
                           (Returns RetNone, clear_session w2, [Answer, EditAllDone (name done)])
                         else
                           (Returns RetNone, w2,
                            [Answer,
                             EditDelivered (name done) ds' (build_route_keyboard ds')]))))))"

section \<open>The conversation\<close>

text \<open>
  \<^verbatim>\<open>main\<close> registers one \<^verbatim>\<open>ConversationHandler\<close>:
  \<^verbatim>\<open>entry_points=[MessageHandler(TEXT & ~COMMAND, handle_text), CommandHandler("add", cmd_add)]\<close>,
  \<^verbatim>\<open>states={ASK_FLOOR: [MessageHandler(TEXT & ~COMMAND, got_floor)],
           ASK_ROOM: [MessageHandler(TEXT & ~COMMAND, got_room)]}\<close>,
  \<^verbatim>\<open>fallbacks=[CommandHandler("clear", cmd_clear)]\<close>, \<^verbatim>\<open>allow_reentry=True\<close>.
  \<^verbatim>\<open>got_floor_manual\<close> is in none of the three tables. An update is a text message
  or a command (written without its slash).
\<close>

datatype update = Text ustring | Command ustring

fun entry_points :: "update \<Rightarrow> (world \<Rightarrow> result) option" where
  "entry_points (Text t) = Some (\<lambda>w. handle_text w t)"
| "entry_points (Command c) = (if c = ascii ''add'' then Some cmd_add else None)"

fun states :: "retval \<Rightarrow> update \<Rightarrow> (world \<Rightarrow> result) option" where
  "states ASK_FLOOR (Text t) = Some (\<lambda>w. got_floor w t)"
| "states ASK_ROOM (Text t) = Some (\<lambda>w. got_room w t)"
| "states st u = None"

fun fallbacks :: "update \<Rightarrow> (world \<Rightarrow> result) option" where
  "fallbacks (Command c) = (if c = ascii ''clear'' then Some (\<lambda>w. cmd_clear w) else None)"
| "fallbacks (Text t) = None"

text \<open>
  How the library's \<^verbatim>\<open>ConversationHandler\<close> picks the handler: when the requester is in
  no state, or \<^verbatim>\<open>allow_reentry\<close> is set, the entry points are tried first; if none
  matches and there is a state, the handlers of that state and then the fallbacks are
  tried. \<open>allow_reentry\<close> is a parameter here; \<^verbatim>\<open>main\<close> passes \<^verbatim>\<open>True\<close>.
\<close>

definition select_handler ::
  "bool \<Rightarrow> retval option \<Rightarrow> update \<Rightarrow> (world \<Rightarrow> result) option" where
  "select_handler allow_reentry st u =
     (case (if st = None \<or> allow_reentry then entry_points u else None) of
        Some h \<Rightarrow> Some h
      | None \<Rightarrow>
          (case st of
             None \<Rightarrow> None
           | Some state \<Rightarrow>
               (case states state u of
                  Some h \<Rightarrow> Some h
                | None \<Rightarrow> fallbacks u)))"

text \<open>
  The state after a handler ran: \<^verbatim>\<open>END\<close> leaves the conversation, \<^verbatim>\<open>None\<close> and an
  exception keep the state, any other value is the new state.
\<close>

fun next_state :: "retval option \<Rightarrow> outcome \<Rightarrow> retval option" where
  "next_state st (Returns END) = None"
| "next_state st (Returns RetNone) = st"
| "next_state st (Returns v) = Some v"
| "next_state st (Raises e) = st"

text \<open>
  One update, then a list of them, for one requester: the conversation state, the world,
  and per update the outcome of its handler with the messages sent (an update that no
  handler takes leaves no entry).
\<close>

definition conv_step ::
  "bool \<Rightarrow> retval option \<times> world \<Rightarrow> update \<Rightarrow> (retval option \<times> world) \<times> (outcome \<times> reply list) list"
  where
  "conv_step allow_reentry cfg u =
     (case select_handler allow_reentry (fst cfg) u of
        None \<Rightarrow> (cfg, [])
      | Some h \<Rightarrow>
          (case h (snd cfg) of
             (out, w', msgs) \<Rightarrow> ((next_state (fst cfg) out, w'), [(out, msgs)])))"

fun run ::
  "bool \<Rightarrow> retval option \<times> world \<Rightarrow> update list \<Rightarrow> (retval option \<times> world) \<times> (outcome \<times> reply list) list"
  where
  "run allow_reentry cfg [] = (cfg, [])"
| "run allow_reentry cfg (u # us) =
     (case conv_step allow_reentry cfg u of
        (cfg', log) \<Rightarrow>
          (case run allow_reentry cfg' us of
             (cfg'', log') \<Rightarrow> (cfg'', log @ log')))"

section \<open>Facts about the library functions\<close>

lemmas parse_eval =
  ascii_def strip_def is_space_def split_on_def parse_delivery_def re_match_def
  is_letter_def is_name_char_def is_dash_def match_tail_def is_decimal_def to_decimal_def
  decimal_blocks_def split_ws_def lower_def lower_cp_def Let_def

lemmas session_eval =
  get_session_def put_session_def clear_session_def empty_session_def

lemma set_strip: "set (strip s) \<subseteq> set s"
proof -
  have "set (dropWhile is_space (rev (dropWhile is_space s))) \<subseteq> set (rev (dropWhile is_space s))"
    by (auto dest: set_dropWhileD)
  also have "\<dots> \<subseteq> set s"
    by (auto dest: set_dropWhileD)
  finally show ?thesis
    by (simp add: strip_def)
qed

lemma set_split_acc: "l \<in> set (split_acc sep acc s) \<Longrightarrow> set l \<subseteq> set acc \<union> set s"
  by (induction sep acc s rule: split_acc.induct) (auto split: if_splits)

section \<open>The route: stability and idempotence\<close>

text \<open>
  C7. \<^verbatim>\<open>optimize_route\<close> is a stable sort: for every key value, the entries of the output
  that have this key are the entries of the input that have it, in the order of the
  input. So two entries with the same key (floor, room number) keep their relative order.
\<close>

theorem optimize_route_stable:
  "filter (\<lambda>d. key d = k) (optimize_route ds) = filter (\<lambda>d. key d = k) ds"
  unfolding optimize_route_def by (rule sort_key_stable)

text \<open>
  C8. \<^verbatim>\<open>optimize_route\<close> is idempotent: sorting a sorted route changes nothing.
\<close>

theorem optimize_route_idempotent:
  "optimize_route (optimize_route x) = optimize_route x"
  unfolding optimize_route_def by (rule sort_key_id_if_sorted) (rule sorted_sort_key)

section \<open>Classification\<close>

lemma classify_acc:
  "classify db parsed known unknown =
     (known @ List.map_filter (\<lambda>i. map_option (\<lambda>emp. stamp emp i) (db (surname i))) parsed,
      unknown @ filter (\<lambda>i. db (surname i) = None) parsed)"
proof (induction parsed arbitrary: known unknown)
  case Nil
  show ?case by (simp add: List.map_filter_simps)
next
  case (Cons item parsed)
  show ?case
    by (cases "db (surname item)") (simp_all add: Cons.IH List.map_filter_simps)
qed

lemma known_stamped:
  "list_all2 (\<lambda>k i. \<exists>emp. db (surname i) = Some emp \<and> k = stamp emp i)
     (List.map_filter (\<lambda>i. map_option (\<lambda>emp. stamp emp i) (db (surname i))) parsed)
     (filter (\<lambda>i. db (surname i) \<noteq> None) parsed)"
  by (induction parsed) (auto simp: List.map_filter_simps split: option.splits)

text \<open>
  C9. For every parsed manifest and every directory, the classification loop of
  \<^verbatim>\<open>handle_text\<close> returns as \<open>unknown\<close> the entries whose surname misses the directory,
  in their original order, and as \<open>known\<close> one entry for each entry whose surname hits
  it, in their original order, each stamped with the floor and room that the directory
  holds for the surname when the loop runs.
\<close>

theorem classify_partition:
  assumes "classify db parsed [] [] = (known, unknown)"
  shows "unknown = filter (\<lambda>i. db (surname i) = None) parsed \<and>
         list_all2
           (\<lambda>k i. \<exists>emp. db (surname i) = Some emp \<and> k = stamp emp i
                    \<and> floor k = Some (emp_floor emp) \<and> room k = Some (emp_room emp)
                    \<and> surname k = surname i \<and> order k = order i)
           known (filter (\<lambda>i. db (surname i) \<noteq> None) parsed)"
proof -
  from assms have k: "known = List.map_filter (\<lambda>i. map_option (\<lambda>emp. stamp emp i) (db (surname i))) parsed"
    and u: "unknown = filter (\<lambda>i. db (surname i) = None) parsed"
    by (simp_all add: classify_acc)
  have "list_all2
           (\<lambda>k i. \<exists>emp. db (surname i) = Some emp \<and> k = stamp emp i
                    \<and> floor k = Some (emp_floor emp) \<and> room k = Some (emp_room emp)
                    \<and> surname k = surname i \<and> order k = order i)
           known (filter (\<lambda>i. db (surname i) \<noteq> None) parsed)"
    unfolding k
    by (rule list_all2_mono[OF known_stamped]) (auto simp: stamp_def)
  with u show ?thesis by simp
qed

theorem classify_partition_witness:
  "classify [ascii ''ab'' \<mapsto> \<lparr>full_name = Some (ascii ''Ab''), emp_floor = 7, emp_room = ascii ''7.47''\<rparr>]
     [\<lparr>name = ascii ''cd'', surname = ascii ''cd'', order = ascii ''2397'', floor = None, room = None\<rparr>,
      \<lparr>name = ascii ''ab'', surname = ascii ''ab'', order = ascii ''0835'', floor = None, room = None\<rparr>] [] []
   = ([\<lparr>name = ascii ''Ab'', surname = ascii ''ab'', order = ascii ''0835'', floor = Some 7, room = Some (ascii ''7.47'')\<rparr>],
      [\<lparr>name = ascii ''cd'', surname = ascii ''cd'', order = ascii ''2397'', floor = None, room = None\<rparr>])
   \<and> [\<lparr>name = ascii ''cd'', surname = ascii ''cd'', order = ascii ''2397'', floor = None, room = None\<rparr>]
     = filter (\<lambda>i. [ascii ''ab'' \<mapsto> \<lparr>full_name = Some (ascii ''Ab''), emp_floor = 7, emp_room = ascii ''7.47''\<rparr>] (surname i) = None)
         [\<lparr>name = ascii ''cd'', surname = ascii ''cd'', order = ascii ''2397'', floor = None, room = None\<rparr>,
          \<lparr>name = ascii ''ab'', surname = ascii ''ab'', order = ascii ''0835'', floor = None, room = None\<rparr>]"
proof -
  have h: "classify [ascii ''ab'' \<mapsto> \<lparr>full_name = Some (ascii ''Ab''), emp_floor = 7, emp_room = ascii ''7.47''\<rparr>]
     [\<lparr>name = ascii ''cd'', surname = ascii ''cd'', order = ascii ''2397'', floor = None, room = None\<rparr>,
      \<lparr>name = ascii ''ab'', surname = ascii ''ab'', order = ascii ''0835'', floor = None, room = None\<rparr>] [] []
   = ([\<lparr>name = ascii ''Ab'', surname = ascii ''ab'', order = ascii ''0835'', floor = Some 7, room = Some (ascii ''7.47'')\<rparr>],
      [\<lparr>name = ascii ''cd'', surname = ascii ''cd'', order = ascii ''2397'', floor = None, room = None\<rparr>])"
    by (simp add: ascii_def stamp_def)
  from classify_partition[OF h] h show ?thesis by blast
qed

section \<open>Receiving a manifest\<close>

text \<open>
  C2, as the code has it. For every manifest text that parses to no entry,
  \<^verbatim>\<open>handle_text\<close> sends the unrecognized-format message and ends the conversation, and
  it leaves the requester's data, the session included, and the directory as they were:
  the session is not reset.
\<close>

theorem parse_failure_changes_nothing:
  "parse_delivery (strip msg) = Inr [] \<Longrightarrow>
   handle_text w msg = (Returns END, w, [UnrecognizedFormat])"
  by (simp add: handle_text_def)

theorem parse_failure_changes_nothing_witness:
  "parse_delivery (strip (ascii ''???'')) = Inr [] \<and>
   handle_text \<lparr>user_data = \<lparr>session = None, manual_add = False, manual_name = None,
                              manual_floor = None\<rparr>, employees = Map.empty\<rparr> (ascii ''???'')
     = (Returns END,
        \<lparr>user_data = \<lparr>session = None, manual_add = False, manual_name = None,
                       manual_floor = None\<rparr>, employees = Map.empty\<rparr>,
        [UnrecognizedFormat])"
proof -
  have h: "parse_delivery (strip (ascii ''???'')) = Inr []"
    by (simp add: parse_eval)
  from parse_failure_changes_nothing[OF h] h show ?thesis by blast
qed

text \<open>
  The claim as the specification states it fails: a session that holds a route keeps it
  when a text without any entry arrives.
\<close>

theorem parse_failure_reset_counterexample:
  "parse_delivery (strip (ascii ''???'')) = Inr [] \<and>
   session (user_data (fst (snd (handle_text
      \<lparr>user_data =
         \<lparr>session = Some \<lparr>deliveries = [\<lparr>name = ascii ''Ab'', surname = ascii ''ab'',
                                          order = ascii ''0835'', floor = Some 7,
                                          room = Some (ascii ''7.47'')\<rparr>],
                           pending = [], current = None\<rparr>,
          manual_add = False, manual_name = None, manual_floor = None\<rparr>,
       employees = Map.empty\<rparr>
      (ascii ''???'')))))
    \<noteq> Some empty_session"
proof -
  have h: "parse_delivery (strip (ascii ''???'')) = Inr []"
    by (simp add: parse_eval)
  show ?thesis
    by (simp add: handle_text_def h empty_session_def)
qed

text \<open>
  C10. Whenever a manifest text parses to at least one entry, the session that
  \<^verbatim>\<open>handle_text\<close> leaves is determined by the parsed entries and the directory alone:
  the deliveries, the pending queue and the current entry of the session before, an
  interview in flight included, are discarded.
\<close>

theorem new_manifest_overwrites_session:
  assumes "parse_delivery (strip msg) = Inr parsed" and "parsed \<noteq> []"
  shows "session (user_data (fst (snd (handle_text w msg)))) =
           Some (case classify (employees w) parsed [] [] of
                   (known, []) \<Rightarrow>
                     \<lparr>deliveries = optimize_route known, pending = [], current = None\<rparr>
                 | (known, item # rest) \<Rightarrow>
                     \<lparr>deliveries = known, pending = rest, current = Some item\<rparr>)"
  using assms
  by (auto simp: handle_text_def session_eval Let_def
      split: option.splits prod.splits list.splits)

theorem new_manifest_overwrites_session_witness:
  "parse_delivery (strip (ascii ''ab 0835''))
     = Inr [\<lparr>name = ascii ''ab'', surname = ascii ''ab'', order = ascii ''0835'',
              floor = None, room = None\<rparr>] \<and>
   [\<lparr>name = ascii ''ab'', surname = ascii ''ab'', order = ascii ''0835'',
      floor = None, room = None\<rparr>] \<noteq> [] \<and>
   session (user_data (fst (snd (handle_text
      \<lparr>user_data =
         \<lparr>session = Some \<lparr>deliveries = [],
                           pending = [\<lparr>name = ascii ''ef'', surname = ascii ''ef'',
                                       order = ascii ''5851'', floor = None, room = None\<rparr>],
                           current = Some \<lparr>name = ascii ''cd'', surname = ascii ''cd'',
                                            order = ascii ''2397'', floor = Some 3,
                                            room = None\<rparr>\<rparr>,
          manual_add = False, manual_name = None, manual_floor = None\<rparr>,
       employees = [ascii ''ab'' \<mapsto> \<lparr>full_name = Some (ascii ''Ab''), emp_floor = 7,
                                       emp_room = ascii ''7.47''\<rparr>]\<rparr>
      (ascii ''ab 0835'')))))
     = Some \<lparr>deliveries = [\<lparr>name = ascii ''Ab'', surname = ascii ''ab'',
                               order = ascii ''0835'', floor = Some 7,
                               room = Some (ascii ''7.47'')\<rparr>],
              pending = [], current = None\<rparr>"
proof -
  have h: "parse_delivery (strip (ascii ''ab 0835''))
     = Inr [\<lparr>name = ascii ''ab'', surname = ascii ''ab'', order = ascii ''0835'',
              floor = None, room = None\<rparr>]"
    by (simp add: parse_eval)
  have ne: "[\<lparr>name = ascii ''ab'', surname = ascii ''ab'', order = ascii ''0835'',
      floor = None, room = None\<rparr>] \<noteq> []"
    by simp
  show ?thesis
    using new_manifest_overwrites_session[OF h ne] h
    by (simp add: optimize_route_def stamp_def ascii_def)
qed

section \<open>The grammar requires a name\<close>

lemma re_match_no_letter: "list_all (\<lambda>c. \<not> is_letter c) line \<Longrightarrow> re_match line = None"
  by (cases line) (simp_all add: re_match_def)

lemma parse_lines_no_letter:
  "list_all (\<lambda>l. list_all (\<lambda>c. \<not> is_letter c) l) ls \<Longrightarrow> parse_lines ls results = Inr results"
proof (induction ls arbitrary: results)
  case Nil
  then show ?case by simp
next
  case (Cons l ls)
  then have "list_all (\<lambda>c. \<not> is_letter c) (strip l)"
    using set_strip[of l] by (auto simp: list_all_iff)
  then have "re_match (strip l) = None"
    by (rule re_match_no_letter)
  with Cons show ?case
    by (simp add: Let_def)
qed

lemma text_no_letter:
  "list_all (\<lambda>c. \<not> is_letter c) msg \<Longrightarrow> parse_delivery msg = Inr []"
proof -
  assume a: "list_all (\<lambda>c. \<not> is_letter c) msg"
  have "list_all (\<lambda>l. list_all (\<lambda>c. \<not> is_letter c) l) (split_on 0xA (strip msg))"
    using a set_strip[of msg] set_split_acc[of _ "0xA" "[]" "strip msg"]
    by (fastforce simp: list_all_iff split_on_def)
  then show ?thesis
    unfolding parse_delivery_def by (rule parse_lines_no_letter)
qed

lemma re_match_needs_name:
  assumes "re_match line = Some (g1, g2)"
  shows "\<exists>c c' rest. line = c # c' # rest \<and> is_letter c \<and> is_name_char c'"
proof -
  from assms obtain c cs where l: "line = c # cs" and c: "is_letter c"
    and n: "lazy_name [c] cs = Some (g1, g2)"
    by (cases line) (auto simp: re_match_def split: if_splits)
  from n obtain c' rest where "cs = c' # rest" and "is_name_char c'"
    by (cases cs) (auto split: if_splits)
  with l c show ?thesis
    by blast
qed

lemma parse_lines_skip:
  assumes "\<not> (\<exists>c c' rest. strip l = c # c' # rest \<and> is_letter c \<and> is_name_char c')"
  shows "parse_lines (l # ls) results = parse_lines ls results"
proof -
  have "re_match (strip l) = None"
  proof (cases "re_match (strip l)")
    case None
    then show ?thesis .
  next
    case (Some g)
    then obtain g1 g2 where "re_match (strip l) = Some (g1, g2)"
      by (cases g) auto
    from re_match_needs_name[OF this] assms show ?thesis
      by blast
  qed
  then show ?thesis
    by (simp add: Let_def)
qed

lemma parse_lines_skip_all:
  "list_all (\<lambda>l. \<not> (\<exists>c c' rest. strip l = c # c' # rest \<and> is_letter c \<and> is_name_char c')) ls
   \<Longrightarrow> parse_lines ls results = Inr results"
  by (induction ls) (simp_all add: parse_lines_skip del: parse_lines.simps(2))

text \<open>
  C6, as the code has it. The name is not optional. The pattern matches a line only if
  the line starts with a letter followed by at least one more character of the name
  class (a letter, whitespace or a hyphen). A line of the manifest that, once stripped,
  does not start so is skipped by the loop of \<^verbatim>\<open>parse_delivery\<close>, and a text all of whose
  lines are such yields no entry. In particular a text without any letter of the pattern,
  such as a line that is a 3 to 6 digit order code alone or a dash and the code, yields
  no entry.
\<close>

theorem name_is_required:
  "(re_match line = Some (g1, g2) \<longrightarrow>
      (\<exists>c c' rest. line = c # c' # rest \<and> is_letter c \<and> is_name_char c')) \<and>
   (\<not> (\<exists>c c' rest. strip l = c # c' # rest \<and> is_letter c \<and> is_name_char c') \<longrightarrow>
      parse_lines (l # ls) results = parse_lines ls results) \<and>
   (list_all
      (\<lambda>l. \<not> (\<exists>c c' rest. strip l = c # c' # rest \<and> is_letter c \<and> is_name_char c'))
      (split_on 0xA (strip msg)) \<longrightarrow>
      parse_delivery msg = Inr []) \<and>
   (list_all (\<lambda>c. \<not> is_letter c) msg' \<longrightarrow> parse_delivery msg' = Inr [])"
  using re_match_needs_name[of line g1 g2] parse_lines_skip[of l ls results]
    parse_lines_skip_all[of "split_on 0xA (strip msg)" "[]"] text_no_letter[of msg']
  unfolding parse_delivery_def by blast

text \<open>
  The witness: the line \<^verbatim>\<open>a 0835\<close> matches and starts with a letter and a space; the text
  of the two lines \<^verbatim>\<open>- ab 0835\<close> and \<^verbatim>\<open>a0835\<close> (both contain letters, neither starts
  with a letter followed by a name character) yields no entry, the loop skipping each of
  them; and so does \<^verbatim>\<open>- 0835\<close>.
\<close>

theorem name_is_required_witness:
  "re_match (ascii ''a 0835'') = Some (ascii ''a '', ascii ''0835'') \<and>
   (\<exists>c c' rest. ascii ''a 0835'' = c # c' # rest \<and> is_letter c \<and> is_name_char c') \<and>
   list_all
      (\<lambda>l. \<not> (\<exists>c c' rest. strip l = c # c' # rest \<and> is_letter c \<and> is_name_char c'))
      (split_on 0xA (strip (ascii ''- ab 0835'' @ [0xA] @ ascii ''a0835''))) \<and>
   parse_delivery (ascii ''- ab 0835'' @ [0xA] @ ascii ''a0835'') = Inr [] \<and>
   \<not> (\<exists>c c' rest. strip (ascii ''a0835'') = c # c' # rest \<and> is_letter c \<and> is_name_char c') \<and>
   parse_lines [ascii ''a0835''] [] = parse_lines [] [] \<and>
   list_all (\<lambda>c. \<not> is_letter c) (ascii ''- 0835'') \<and>
   parse_delivery (ascii ''- 0835'') = Inr []"
proof -
  have h4: "\<not> (\<exists>c c' rest. strip (ascii ''a0835'') = c # c' # rest \<and> is_letter c \<and> is_name_char c')"
    by (simp add: ascii_def strip_def is_space_def is_letter_def is_name_char_def)
  have h1: "re_match (ascii ''a 0835'') = Some (ascii ''a '', ascii ''0835'')"
    by (simp add: parse_eval)
  have h2: "list_all
      (\<lambda>l. \<not> (\<exists>c c' rest. strip l = c # c' # rest \<and> is_letter c \<and> is_name_char c'))
      (split_on 0xA (strip (ascii ''- ab 0835'' @ [0xA] @ ascii ''a0835'')))"
    by (simp add: ascii_def strip_def is_space_def split_on_def is_letter_def is_name_char_def)
  have h3: "list_all (\<lambda>c. \<not> is_letter c) (ascii ''- 0835'')"
    by (simp add: ascii_def is_letter_def)
  note t = name_is_required[of "ascii ''a 0835''" "ascii ''a ''" "ascii ''0835''"
      "ascii ''a0835''" "[]" "[]"
      "ascii ''- ab 0835'' @ [0xA] @ ascii ''a0835''" "ascii ''- 0835''"]
  from t h1 have c1: "\<exists>c c' rest. ascii ''a 0835'' = c # c' # rest \<and> is_letter c \<and> is_name_char c'"
    by blast
  from t h2 have c2: "parse_delivery (ascii ''- ab 0835'' @ [0xA] @ ascii ''a0835'') = Inr []"
    by blast
  from t h3 have c3: "parse_delivery (ascii ''- 0835'') = Inr []"
    by blast
  from t h4 have c4: "parse_lines [ascii ''a0835''] [] = parse_lines [] []"
    by blast
  from h1 h2 h3 h4 c1 c2 c3 c4 show ?thesis
    by blast
qed

text \<open>
  The claim as the specification states it fails: the line \<^verbatim>\<open>0835\<close> and the line
  \<^verbatim>\<open>- 0835\<close> are not parsed into an entry, while \<^verbatim>\<open>ab 0835\<close> is.
\<close>

theorem code_only_line_counterexample:
  "parse_delivery (ascii ''0835'') = Inr [] \<and> parse_delivery (ascii ''- 0835'') = Inr [] \<and>
   parse_delivery (ascii ''ab 0835'')
     = Inr [\<lparr>name = ascii ''ab'', surname = ascii ''ab'', order = ascii ''0835'',
              floor = None, room = None\<rparr>]"
  by (simp add: parse_eval)

section \<open>The order of the route\<close>

lemma room_number_default: "room_number (ascii ''99.99'') = Some 99"
  by (simp add: room_number_def ascii_def split_on_def py_int_def is_int_space_def is_space_def
      to_decimal_def decimal_blocks_def)

lemma key_eq:
  "key d =
     (case floor d of None \<Rightarrow> 99 | Some f \<Rightarrow> f,
      case room d of
        None \<Rightarrow> 99
      | Some r \<Rightarrow> (case room_number r of None \<Rightarrow> 99 | Some n \<Rightarrow> n))"
  by (simp add: key_def room_number_default split: option.splits)

lemma key_nth_mono:
  "i \<le> j \<Longrightarrow> j < length ds \<Longrightarrow> key (optimize_route ds ! i) \<le> key (optimize_route ds ! j)"
proof -
  assume ij: "i \<le> j" and j: "j < length ds"
  have s: "sorted (map key (optimize_route ds))"
    unfolding optimize_route_def by (rule sorted_sort_key)
  have l: "length (optimize_route ds) = length ds"
    by (simp add: optimize_route_def)
  from sorted_nth_mono[OF s, of i j] ij j l show ?thesis
    by simp
qed

lemma unknown_floor_after:
  assumes "i < length ds" "j < length ds"
    and "floor (optimize_route ds ! i) = None"
    and "floor (optimize_route ds ! j) = Some f" "f < 99"
  shows "j < i"
proof (rule ccontr)
  assume "\<not> j < i"
  then have "i \<le> j" by simp
  from key_nth_mono[OF this assms(2)] assms(3,4,5) show False
    by (simp add: key_eq less_eq_prod_def)
qed

lemma unparsed_room_after:
  assumes "i < length ds" "j < length ds"
    and "fst (key (optimize_route ds ! i)) = fst (key (optimize_route ds ! j))"
    and "room (optimize_route ds ! i) = Some r" "room_number r = None"
    and "room (optimize_route ds ! j) = Some r'" "room_number r' = Some n" "n < 99"
  shows "j < i"
proof (rule ccontr)
  assume "\<not> j < i"
  then have "i \<le> j" by simp
  from key_nth_mono[OF this assms(2)] have "key (optimize_route ds ! i) \<le> key (optimize_route ds ! j)" .
  then have "snd (key (optimize_route ds ! i)) \<le> snd (key (optimize_route ds ! j))"
    using assms(3) by (auto simp: less_eq_prod_def)
  with assms(4-8) show False
    by (simp add: key_eq)
qed

text \<open>
  C4, as the code has it. \<^verbatim>\<open>optimize_route\<close> returns the deliveries rearranged in
  ascending order of the key (floor, room number), the room number being the integer
  parsed from the segment of the room label after its first dot. An unknown floor counts
  as floor 99, and a room label without a parseable segment counts as room number 99. So
  an entry with an unknown floor comes after every entry whose floor is below 99, and an
  entry whose room has no parseable segment comes after every entry with the same floor
  key whose room number is below 99; nothing of the kind holds from 99 on.
\<close>

theorem optimize_route_sorted_by_key:
  "mset (optimize_route ds) = mset ds \<and>
   sorted (map key (optimize_route ds)) \<and>
   (\<forall>d. key d =
      (case floor d of None \<Rightarrow> 99 | Some f \<Rightarrow> f,
       case room d of
         None \<Rightarrow> 99
       | Some r \<Rightarrow> (case room_number r of None \<Rightarrow> 99 | Some n \<Rightarrow> n))) \<and>
   (\<forall>i j f. i < length ds \<and> j < length ds \<and>
        floor (optimize_route ds ! i) = None \<and>
        floor (optimize_route ds ! j) = Some f \<and> f < 99 \<longrightarrow> j < i) \<and>
   (\<forall>i j r r' n. i < length ds \<and> j < length ds \<and>
        fst (key (optimize_route ds ! i)) = fst (key (optimize_route ds ! j)) \<and>
        room (optimize_route ds ! i) = Some r \<and> room_number r = None \<and>
        room (optimize_route ds ! j) = Some r' \<and> room_number r' = Some n \<and> n < 99
        \<longrightarrow> j < i)"
proof -
  have "mset (optimize_route ds) = mset ds"
    by (simp add: optimize_route_def)
  moreover have "sorted (map key (optimize_route ds))"
    unfolding optimize_route_def by (rule sorted_sort_key)
  moreover note key_eq unknown_floor_after unparsed_room_after
  ultimately show ?thesis by blast
qed

lemmas key_eval =
  optimize_route_def key_def room_number_def ascii_def split_on_def py_int_def
  is_int_space_def is_space_def to_decimal_def decimal_blocks_def

theorem optimize_route_sorted_by_key_witness:
  "optimize_route
     [\<lparr>name = ascii ''Ab'', surname = ascii ''ab'', order = ascii ''0835'', floor = None, room = None\<rparr>,
      \<lparr>name = ascii ''Cd'', surname = ascii ''cd'', order = ascii ''2397'', floor = Some 3, room = Some (ascii ''3a'')\<rparr>,
      \<lparr>name = ascii ''Ef'', surname = ascii ''ef'', order = ascii ''5851'', floor = Some 3, room = Some (ascii ''3.7'')\<rparr>]
   = [\<lparr>name = ascii ''Ef'', surname = ascii ''ef'', order = ascii ''5851'', floor = Some 3, room = Some (ascii ''3.7'')\<rparr>,
      \<lparr>name = ascii ''Cd'', surname = ascii ''cd'', order = ascii ''2397'', floor = Some 3, room = Some (ascii ''3a'')\<rparr>,
      \<lparr>name = ascii ''Ab'', surname = ascii ''ab'', order = ascii ''0835'', floor = None, room = None\<rparr>] \<and>
   room_number (ascii ''3a'') = None \<and> room_number (ascii ''3.7'') = Some 7 \<and>
   (0::nat) < 2 \<and> (0::nat) < 1"
proof -
  let ?ds = "[\<lparr>name = ascii ''Ab'', surname = ascii ''ab'', order = ascii ''0835'', floor = None, room = None\<rparr>,
      \<lparr>name = ascii ''Cd'', surname = ascii ''cd'', order = ascii ''2397'', floor = Some 3, room = Some (ascii ''3a'')\<rparr>,
      \<lparr>name = ascii ''Ef'', surname = ascii ''ef'', order = ascii ''5851'', floor = Some 3, room = Some (ascii ''3.7'')\<rparr>]"
  have e: "optimize_route ?ds
   = [\<lparr>name = ascii ''Ef'', surname = ascii ''ef'', order = ascii ''5851'', floor = Some 3, room = Some (ascii ''3.7'')\<rparr>,
      \<lparr>name = ascii ''Cd'', surname = ascii ''cd'', order = ascii ''2397'', floor = Some 3, room = Some (ascii ''3a'')\<rparr>,
      \<lparr>name = ascii ''Ab'', surname = ascii ''ab'', order = ascii ''0835'', floor = None, room = None\<rparr>]"
    by (simp add: key_eval)
  have r1: "room_number (ascii ''3a'') = None"
    by (simp add: key_eval)
  have r2: "room_number (ascii ''3.7'') = Some 7"
    by (simp add: key_eval)
  note t = optimize_route_sorted_by_key[of ?ds]
  from t have f: "\<forall>i j f. i < length ?ds \<and> j < length ?ds \<and>
        floor (optimize_route ?ds ! i) = None \<and>
        floor (optimize_route ?ds ! j) = Some f \<and> f < 99 \<longrightarrow> j < i"
    by blast
  from t have g: "\<forall>i j r r' n. i < length ?ds \<and> j < length ?ds \<and>
        fst (key (optimize_route ?ds ! i)) = fst (key (optimize_route ?ds ! j)) \<and>
        room (optimize_route ?ds ! i) = Some r \<and> room_number r = None \<and>
        room (optimize_route ?ds ! j) = Some r' \<and> room_number r' = Some n \<and> n < 99
        \<longrightarrow> j < i"
    by blast
  have a: "(0::nat) < 2"
    by (rule f[rule_format, of 2 0 3]) (simp add: e)
  have b: "(0::nat) < 1"
    by (rule g[rule_format, of 1 0 "ascii ''3a''" "ascii ''3.7''" 7]) (simp add: e key_def r1 r2)
  from e r1 r2 a b show ?thesis by blast
qed

text \<open>
  The claim as the specification states it fails from 99 on: an entry with an unknown
  floor is sorted before an entry on floor 100, and on one floor an entry whose room label
  has no parseable segment is sorted before an entry with room number 100.
\<close>

theorem sentinel_counterexample:
  "optimize_route
     [\<lparr>name = ascii ''Cd'', surname = ascii ''cd'', order = ascii ''2397'', floor = Some 100, room = Some (ascii ''100.1'')\<rparr>,
      \<lparr>name = ascii ''Ab'', surname = ascii ''ab'', order = ascii ''0835'', floor = None, room = None\<rparr>]
   = [\<lparr>name = ascii ''Ab'', surname = ascii ''ab'', order = ascii ''0835'', floor = None, room = None\<rparr>,
      \<lparr>name = ascii ''Cd'', surname = ascii ''cd'', order = ascii ''2397'', floor = Some 100, room = Some (ascii ''100.1'')\<rparr>] \<and>
   room_number (ascii ''3.100'') = Some 100 \<and> room_number (ascii ''3a'') = None \<and>
   optimize_route
     [\<lparr>name = ascii ''Cd'', surname = ascii ''cd'', order = ascii ''2397'', floor = Some 3, room = Some (ascii ''3.100'')\<rparr>,
      \<lparr>name = ascii ''Ab'', surname = ascii ''ab'', order = ascii ''0835'', floor = Some 3, room = Some (ascii ''3a'')\<rparr>]
   = [\<lparr>name = ascii ''Ab'', surname = ascii ''ab'', order = ascii ''0835'', floor = Some 3, room = Some (ascii ''3a'')\<rparr>,
      \<lparr>name = ascii ''Cd'', surname = ascii ''cd'', order = ascii ''2397'', floor = Some 3, room = Some (ascii ''3.100'')\<rparr>]"
  by (simp add: key_eval)

section \<open>The interview\<close>

lemma set_trim: "set (rev (dropWhile P (rev (dropWhile P s)))) \<subseteq> set s"
proof -
  have "set (dropWhile P (rev (dropWhile P s))) \<subseteq> set (rev (dropWhile P s))"
    by (auto dest: set_dropWhileD)
  also have "\<dots> \<subseteq> set s"
    by (auto dest: set_dropWhileD)
  finally show ?thesis
    by simp
qed

lemma find_SomeD: "find P xs = Some x \<Longrightarrow> P x \<and> x \<in> set xs"
  by (induction xs) (auto split: if_splits)

lemma to_decimal_ge: "to_decimal c = Some d \<Longrightarrow> 48 \<le> c"
proof -
  assume "to_decimal c = Some d"
  then obtain s where "find (\<lambda>s. s \<le> c \<and> c < s + 10) decimal_blocks = Some s"
    by (auto simp: to_decimal_def split: option.splits)
  then have "s \<le> c" and "s \<in> set decimal_blocks"
    by (auto dest: find_SomeD)
  moreover have "list_all (\<lambda>s. 48 \<le> s) decimal_blocks"
    by (simp add: decimal_blocks_def)
  ultimately show ?thesis
    by (auto simp: list_all_iff)
qed

lemma is_digit_ge: "is_digit c \<Longrightarrow> 48 \<le> c"
proof -
  assume d: "is_digit c"
  have "list_all (\<lambda>(lo, hi). 48 \<le> lo) other_digit_ranges"
    by (simp add: other_digit_ranges_def)
  with d show ?thesis
    by (auto simp: is_digit_def is_decimal_def list_all_iff list_ex_iff dest: to_decimal_ge)
qed

lemma int_digits_nonneg: "0 \<le> acc \<Longrightarrow> int_digits acc prev s = Some v \<Longrightarrow> 0 \<le> v"
  by (induction acc prev s rule: int_digits.induct) (auto split: option.splits if_splits)

lemma py_int_isdigit_nonneg:
  assumes "isdigit s" and "py_int s = Some v"
  shows "0 \<le> v"
proof -
  let ?t = "rev (dropWhile is_int_space (rev (dropWhile is_int_space s)))"
  have sub: "set ?t \<subseteq> set s"
    by (rule set_trim)
  from assms(2) obtain c cs where t: "?t = c # cs"
    by (cases ?t) (auto simp: py_int_def)
  then have "c \<in> set s"
    using sub by (metis list.set_intros(1) subsetD)
  with assms(1) have "48 \<le> c"
    by (auto simp: isdigit_def list_all_iff dest: is_digit_ge)
  with assms(2) t have "int_digits 0 False (c # cs) = Some v"
    by (simp add: py_int_def)
  then show ?thesis
    by (rule int_digits_nonneg[rotated]) simp
qed

lemma got_floor_accepts:
  assumes "session (user_data w) = Some s" and "current s = Some item"
    and "isdigit (strip ftext)" and "py_int (strip ftext) = Some fl"
  shows "got_floor w ftext =
           (Returns ASK_ROOM, put_session w (s\<lparr>current := Some (item\<lparr>floor := Some fl\<rparr>)\<rparr>),
            [FloorAccepted (strip ftext)])"
  using assms by (simp add: got_floor_def get_session_def Let_def)

lemma got_room_saves:
  assumes "session (user_data w) = Some s" and "current s = Some item"
    and "floor item = Some fl"
  shows "got_room w rtext =
           (Returns (if pending s = [] then END else ASK_FLOOR),
            w\<lparr>user_data := (user_data w)\<lparr>session := Some
                 (s\<lparr>deliveries :=
                      (if pending s = [] then optimize_route else (\<lambda>ds. ds))
                        (deliveries s @
                          [\<lparr>name = capitalize (name item), surname = surname item,
                            order = order item, floor = Some fl, room = Some (strip rtext)\<rparr>]),
                    pending := tl (pending s),
                    current := (case pending s of
                                  [] \<Rightarrow> Some (item\<lparr>room := Some (strip rtext)\<rparr>)
                                | next_item # rest \<Rightarrow> Some next_item)\<rparr>)\<rparr>,
              employees := (employees w)(surname item \<mapsto>
                 \<lparr>full_name = Some (capitalize (name item)), emp_floor = fl,
                  emp_room = strip rtext\<rparr>)\<rparr>,
            Saved (capitalize (name item)) fl (strip rtext) #
              (case pending s of
                 [] \<Rightarrow>
                   [RouteMessage
                      (optimize_route (deliveries s @
                          [\<lparr>name = capitalize (name item), surname = surname item,
                            order = order item, floor = Some fl, room = Some (strip rtext)\<rparr>]))
                      (build_route_keyboard (optimize_route (deliveries s @
                          [\<lparr>name = capitalize (name item), surname = surname item,
                            order = order item, floor = Some fl, room = Some (strip rtext)\<rparr>])))]
               | next_item # rest \<Rightarrow> [AskNext (capitalize (name next_item))]))"
  using assms
  by (cases "pending s") (simp_all add: got_room_def get_session_def put_session_def Let_def)

lemma classify_hit:
  assumes "classify db parsed [] [] = (known, unknown)"
    and "i \<in> set parsed" and "db (surname i) = Some emp"
  shows "i \<notin> set unknown \<and> stamp emp i \<in> set known"
proof -
  from assms(1) have k: "known = List.map_filter (\<lambda>i. map_option (\<lambda>emp. stamp emp i) (db (surname i))) parsed"
    and u: "unknown = filter (\<lambda>i. db (surname i) = None) parsed"
    by (simp_all add: classify_acc)
  from u assms(3) have "i \<notin> set unknown"
    by simp
  moreover have "stamp emp i \<in> set known"
    unfolding k using assms(2,3) by (induction parsed) (auto simp: List.map_filter_simps split: option.splits)
  ultimately show ?thesis ..
qed

text \<open>
  What the two interview handlers do when one runs after the other. Let the session hold
  a current entry \<open>item\<close>, and let the floor input be one that \<^verbatim>\<open>isdigit\<close> accepts and
  \<^verbatim>\<open>int\<close> reads as \<open>fl\<close>. Then \<^verbatim>\<open>got_floor\<close> moves on to the room question, \<open>fl\<close> is
  not negative, and \<^verbatim>\<open>got_room\<close> on any room input leaves: the directory with the record
  of capitalized name, floor and room under the surname of \<open>item\<close>, whatever was there
  before; the deliveries of the session with the resolved entry added (appended, then
  sorted by \<^verbatim>\<open>optimize_route\<close> when no entry is pending); and a directory against which
  every later classification puts each entry with this surname among the known ones.
\<close>

lemma handlers_complete_interview:
  assumes "session (user_data w) = Some s" and "current s = Some item"
    and "isdigit (strip ftext)" and "py_int (strip ftext) = Some fl"
  shows "let w1 = fst (snd (got_floor w ftext));
             r2 = got_room w1 rtext;
             w2 = fst (snd r2);
             emp = \<lparr>full_name = Some (capitalize (name item)), emp_floor = fl,
                    emp_room = strip rtext\<rparr>;
             e = \<lparr>name = capitalize (name item), surname = surname item, order = order item,
                  floor = Some fl, room = Some (strip rtext)\<rparr>
         in fst (got_floor w ftext) = Returns ASK_ROOM \<and> 0 \<le> fl \<and>
            fst r2 = Returns (if pending s = [] then END else ASK_FLOOR) \<and>
            employees w2 = (employees w)(surname item \<mapsto> emp) \<and>
            map_option deliveries (session (user_data w2)) =
              Some (if pending s = [] then optimize_route (deliveries s @ [e])
                    else deliveries s @ [e]) \<and>
            map_option (\<lambda>x. mset (deliveries x)) (session (user_data w2)) =
              Some (mset (deliveries s) + {#e#}) \<and>
            (\<forall>parsed known unknown i.
               classify (employees w2) parsed [] [] = (known, unknown) \<and>
               i \<in> set parsed \<and> surname i = surname item
               \<longrightarrow> i \<notin> set unknown \<and> stamp emp i \<in> set known)"
proof -
  let ?item = "item\<lparr>floor := Some fl\<rparr>"
  let ?s1 = "s\<lparr>current := Some ?item\<rparr>"
  let ?w1 = "put_session w ?s1"
  let ?emp = "\<lparr>full_name = Some (capitalize (name item)), emp_floor = fl,
               emp_room = strip rtext\<rparr>"
  let ?e = "\<lparr>name = capitalize (name item), surname = surname item, order = order item,
             floor = Some fl, room = Some (strip rtext)\<rparr>"
  have g1: "got_floor w ftext = (Returns ASK_ROOM, ?w1, [FloorAccepted (strip ftext)])"
    using assms by (rule got_floor_accepts)
  have nonneg: "0 \<le> fl"
    using assms(3,4) by (rule py_int_isdigit_nonneg)
  have s1: "session (user_data ?w1) = Some ?s1"
    by (simp add: put_session_def)
  have c1: "current ?s1 = Some ?item"
    by simp
  have f1: "floor ?item = Some fl"
    by simp
  note g2 = got_room_saves[OF s1 c1 f1, of rtext]
  have db: "employees (fst (snd (got_room ?w1 rtext))) = (employees w)(surname item \<mapsto> ?emp)"
    unfolding g2 by (simp add: put_session_def)
  have later: "i \<notin> set unknown \<and> stamp ?emp i \<in> set known"
    if "classify (employees (fst (snd (got_room ?w1 rtext)))) parsed [] [] = (known, unknown)"
      and "i \<in> set parsed" and "surname i = surname item"
    for parsed known unknown i
    using that(1,2) by (rule classify_hit) (simp add: db that(3))
  have ret: "fst (got_room ?w1 rtext) = Returns (if pending s = [] then END else ASK_FLOOR)"
    by (simp add: g2)
  have dl: "map_option deliveries (session (user_data (fst (snd (got_room ?w1 rtext))))) =
      Some (if pending s = [] then optimize_route (deliveries s @ [?e])
            else deliveries s @ [?e])"
    by (simp add: g2)
  have ms: "map_option (\<lambda>x. mset (deliveries x))
              (session (user_data (fst (snd (got_room ?w1 rtext))))) =
      Some (mset (deliveries s) + {#?e#})"
    by (simp add: g2 optimize_route_def)
  show ?thesis
    unfolding Let_def g1 fst_conv snd_conv
    using nonneg ret db dl ms later by blast
qed

text \<open>
  C5. As \<^verbatim>\<open>main\<close> wires the handlers, the interview never completes. The text entry
  point takes every text message and \<^verbatim>\<open>allow_reentry\<close> is set, so the answers to the
  floor and room questions go to \<^verbatim>\<open>handle_text\<close>, not to \<^verbatim>\<open>got_floor\<close> and
  \<^verbatim>\<open>got_room\<close>. The theorem runs the texts \<^verbatim>\<open>ab 0835\<close>, \<^verbatim>\<open>7\<close>, \<^verbatim>\<open>7.47\<close>, \<^verbatim>\<open>ab 0835\<close>
  for a new requester on an empty directory: the bot asks for the floor, rejects both
  answers as unrecognized manifests, never writes the directory, and asks for the floor
  of the same surname again. Were the state handlers consulted first, the same texts
  would complete the interview as \<open>handlers_complete_interview\<close> describes: the record
  is written, the route is sent, and the surname is known on the second manifest.
\<close>

theorem interview_answers_go_to_handle_text:
  "run True
     (None, \<lparr>user_data = \<lparr>session = None, manual_add = False, manual_name = None,
                            manual_floor = None\<rparr>, employees = Map.empty\<rparr>)
     [Text (ascii ''ab 0835''), Text (ascii ''7''), Text (ascii ''7.47''),
      Text (ascii ''ab 0835'')]
   = ((Some ASK_FLOOR,
       \<lparr>user_data =
          \<lparr>session = Some \<lparr>deliveries = [], pending = [],
                            current = Some \<lparr>name = ascii ''ab'', surname = ascii ''ab'',
                                             order = ascii ''0835'', floor = None,
                                             room = None\<rparr>\<rparr>,
           manual_add = False, manual_name = None, manual_floor = None\<rparr>,
        employees = Map.empty\<rparr>),
      [(Returns ASK_FLOOR, [AskFloor (ascii ''Ab'')]), (Returns END, [UnrecognizedFormat]),
       (Returns END, [UnrecognizedFormat]), (Returns ASK_FLOOR, [AskFloor (ascii ''Ab'')])]) \<and>
   run False
     (None, \<lparr>user_data = \<lparr>session = None, manual_add = False, manual_name = None,
                            manual_floor = None\<rparr>, employees = Map.empty\<rparr>)
     [Text (ascii ''ab 0835''), Text (ascii ''7''), Text (ascii ''7.47''),
      Text (ascii ''ab 0835'')]
   = ((None,
       \<lparr>user_data =
          \<lparr>session = Some \<lparr>deliveries = [\<lparr>name = ascii ''Ab'', surname = ascii ''ab'',
                                           order = ascii ''0835'', floor = Some 7,
                                           room = Some (ascii ''7.47'')\<rparr>],
                            pending = [], current = None\<rparr>,
           manual_add = False, manual_name = None, manual_floor = None\<rparr>,
        employees = [ascii ''ab'' \<mapsto> \<lparr>full_name = Some (ascii ''Ab''), emp_floor = 7,
                                        emp_room = ascii ''7.47''\<rparr>]\<rparr>),
      [(Returns ASK_FLOOR, [AskFloor (ascii ''Ab'')]),
       (Returns ASK_ROOM, [FloorAccepted (ascii ''7'')]),
       (Returns END,
        [Saved (ascii ''Ab'') 7 (ascii ''7.47''),
         RouteMessage
           [\<lparr>name = ascii ''Ab'', surname = ascii ''ab'', order = ascii ''0835'',
             floor = Some 7, room = Some (ascii ''7.47'')\<rparr>]
           [Done 0, DoneClear]]),
       (Returns END,
        [RouteMessage
           [\<lparr>name = ascii ''Ab'', surname = ascii ''ab'', order = ascii ''0835'',
             floor = Some 7, room = Some (ascii ''7.47'')\<rparr>]
           [Done 0, DoneClear]])])"
proof -
  have p1: "parse_delivery (strip (ascii ''ab 0835''))
     = Inr [\<lparr>name = ascii ''ab'', surname = ascii ''ab'', order = ascii ''0835'',
              floor = None, room = None\<rparr>]"
    by (simp add: parse_eval)
  have p2: "parse_delivery (strip (ascii ''7'')) = Inr []"
    by (simp add: parse_eval)
  have p3: "parse_delivery (strip (ascii ''7.47'')) = Inr []"
    by (simp add: parse_eval)
  have d2: "isdigit (ascii ''7'')"
    by (simp add: isdigit_def is_digit_def is_decimal_def to_decimal_def decimal_blocks_def
        ascii_def)
  have i2: "py_int (ascii ''7'') = Some 7"
    by (simp add: key_eval)
  have s2: "strip (ascii ''7'') = ascii ''7''"
    by (simp add: ascii_def strip_def is_space_def)
  have s3: "strip (ascii ''7.47'') = ascii ''7.47''"
    by (simp add: ascii_def strip_def is_space_def)
  have cap: "capitalize (ascii ''ab'') = ascii ''Ab''"
    by (simp add: capitalize_def upper_cp_def lower_cp_def ascii_def)
  have t: "run True
     (None, \<lparr>user_data = \<lparr>session = None, manual_add = False, manual_name = None,
                            manual_floor = None\<rparr>, employees = Map.empty\<rparr>)
     [Text (ascii ''ab 0835''), Text (ascii ''7''), Text (ascii ''7.47''),
      Text (ascii ''ab 0835'')]
   = ((Some ASK_FLOOR,
       \<lparr>user_data =
          \<lparr>session = Some \<lparr>deliveries = [], pending = [],
                            current = Some \<lparr>name = ascii ''ab'', surname = ascii ''ab'',
                                             order = ascii ''0835'', floor = None,
                                             room = None\<rparr>\<rparr>,
           manual_add = False, manual_name = None, manual_floor = None\<rparr>,
        employees = Map.empty\<rparr>),
      [(Returns ASK_FLOOR, [AskFloor (ascii ''Ab'')]), (Returns END, [UnrecognizedFormat]),
       (Returns END, [UnrecognizedFormat]), (Returns ASK_FLOOR, [AskFloor (ascii ''Ab'')])])"
    by (simp add: conv_step_def select_handler_def handle_text_def p1 p2 p3 cap
        session_eval Let_def)
  have f: "run False
     (None, \<lparr>user_data = \<lparr>session = None, manual_add = False, manual_name = None,
                            manual_floor = None\<rparr>, employees = Map.empty\<rparr>)
     [Text (ascii ''ab 0835''), Text (ascii ''7''), Text (ascii ''7.47''),
      Text (ascii ''ab 0835'')]
   = ((None,
       \<lparr>user_data =
          \<lparr>session = Some \<lparr>deliveries = [\<lparr>name = ascii ''Ab'', surname = ascii ''ab'',
                                           order = ascii ''0835'', floor = Some 7,
                                           room = Some (ascii ''7.47'')\<rparr>],
                            pending = [], current = None\<rparr>,
           manual_add = False, manual_name = None, manual_floor = None\<rparr>,
        employees = [ascii ''ab'' \<mapsto> \<lparr>full_name = Some (ascii ''Ab''), emp_floor = 7,
                                        emp_room = ascii ''7.47''\<rparr>]\<rparr>),
      [(Returns ASK_FLOOR, [AskFloor (ascii ''Ab'')]),
       (Returns ASK_ROOM, [FloorAccepted (ascii ''7'')]),
       (Returns END,
        [Saved (ascii ''Ab'') 7 (ascii ''7.47''),
         RouteMessage
           [\<lparr>name = ascii ''Ab'', surname = ascii ''ab'', order = ascii ''0835'',
             floor = Some 7, room = Some (ascii ''7.47'')\<rparr>]
           [Done 0, DoneClear]]),
       (Returns END,
        [RouteMessage
           [\<lparr>name = ascii ''Ab'', surname = ascii ''ab'', order = ascii ''0835'',
             floor = Some 7, room = Some (ascii ''7.47'')\<rparr>]
           [Done 0, DoneClear]])])"
    by (simp add: conv_step_def select_handler_def handle_text_def got_floor_def got_room_def
        p1 p2 p3 d2 i2 s2 s3 cap session_eval stamp_def optimize_route_def
        build_route_keyboard_def Let_def)
  from t f show ?thesis
    by (rule conjI)
qed

section \<open>Marking a delivery\<close>

lemma cb_done_index_too_large:
  assumes "data \<noteq> ascii ''done:clear''" and "py_int (drop 5 data) = Some idx"
    and "session (user_data w) = Some s" and "int (length (deliveries s)) \<le> idx"
  shows "cb_done w data = (Returns RetNone, w, [Answer])"
  using assms by (simp add: cb_done_def get_session_def Let_def)

text \<open>
  C3. The guard of \<^verbatim>\<open>cb_done\<close> is \<^verbatim>\<open>idx >= len(deliveries)\<close> only, so an index at or
  beyond the length is a silent no-op (\<open>cb_done_index_too_large\<close>), but a negative index
  passes the guard and reaches \<^verbatim>\<open>deliveries.pop(idx)\<close>. On a route of two entries the
  callback data \<^verbatim>\<open>done:-1\<close> removes the last entry and re-renders the route, and
  \<^verbatim>\<open>done:-3\<close> raises \<^verbatim>\<open>IndexError\<close>.
\<close>

theorem cb_done_negative_index:
  "cb_done
     \<lparr>user_data =
        \<lparr>session = Some \<lparr>deliveries =
                            [\<lparr>name = ascii ''Ab'', surname = ascii ''ab'', order = ascii ''0835'',
                              floor = Some 7, room = Some (ascii ''7.47'')\<rparr>,
                             \<lparr>name = ascii ''Cd'', surname = ascii ''cd'', order = ascii ''2397'',
                              floor = Some 9, room = Some (ascii ''9.10'')\<rparr>],
                          pending = [], current = None\<rparr>,
         manual_add = False, manual_name = None, manual_floor = None\<rparr>,
      employees = Map.empty\<rparr>
     (ascii ''done:-1'')
   = (Returns RetNone,
      \<lparr>user_data =
        \<lparr>session = Some \<lparr>deliveries =
                            [\<lparr>name = ascii ''Ab'', surname = ascii ''ab'', order = ascii ''0835'',
                              floor = Some 7, room = Some (ascii ''7.47'')\<rparr>],
                          pending = [], current = None\<rparr>,
         manual_add = False, manual_name = None, manual_floor = None\<rparr>,
      employees = Map.empty\<rparr>,
      [Answer,
       EditDelivered (ascii ''Cd'')
         [\<lparr>name = ascii ''Ab'', surname = ascii ''ab'', order = ascii ''0835'',
           floor = Some 7, room = Some (ascii ''7.47'')\<rparr>]
         [Done 0, DoneClear]]) \<and>
   fst (cb_done
     \<lparr>user_data =
        \<lparr>session = Some \<lparr>deliveries =
                            [\<lparr>name = ascii ''Ab'', surname = ascii ''ab'', order = ascii ''0835'',
                              floor = Some 7, room = Some (ascii ''7.47'')\<rparr>,
                             \<lparr>name = ascii ''Cd'', surname = ascii ''cd'', order = ascii ''2397'',
                              floor = Some 9, room = Some (ascii ''9.10'')\<rparr>],
                          pending = [], current = None\<rparr>,
         manual_add = False, manual_name = None, manual_floor = None\<rparr>,
      employees = Map.empty\<rparr>
     (ascii ''done:-3'')) = Raises IndexError"
proof -
  have i1: "py_int (drop 5 (ascii ''done:-1'')) = Some (- 1)"
    by (simp add: key_eval)
  have i3: "py_int (drop 5 (ascii ''done:-3'')) = Some (- 3)"
    by (simp add: key_eval)
  have n1: "ascii ''done:-1'' \<noteq> ascii ''done:clear''"
    by (simp add: ascii_def)
  have n3: "ascii ''done:-3'' \<noteq> ascii ''done:clear''"
    by (simp add: ascii_def)
  show ?thesis
    by (simp add: cb_done_def i1 i3 n1 n3 session_eval list_pop_def build_route_keyboard_def
        Let_def)
qed

section \<open>The manual-add flow\<close>

text \<open>
  C1. The claim describes a flow that the code does not have. \<^verbatim>\<open>cmd_add\<close> only sets a
  flag and returns \<^verbatim>\<open>ASK_FLOOR\<close>; the handler that would take the typed surname,
  \<^verbatim>\<open>got_floor_manual\<close>, is registered nowhere, nothing seeds \<open>current\<close>, and
  \<^verbatim>\<open>got_room\<close>, the only writer of the directory, always appends to the deliveries. The
  theorem runs the updates \<^verbatim>\<open>/add\<close>, a surname (ivanov, in Cyrillic letters), \<^verbatim>\<open>7\<close>,
  \<^verbatim>\<open>7.47\<close> for a new requester on an empty directory. With \<^verbatim>\<open>allow_reentry\<close> as
  \<^verbatim>\<open>main\<close> sets it, every text is taken by the entry point \<^verbatim>\<open>handle_text\<close> and rejected
  as an unrecognized manifest. Were the state handlers consulted instead, \<^verbatim>\<open>got_floor\<close>
  would reject the surname as not a number and raise \<^verbatim>\<open>TypeError\<close> on \<^verbatim>\<open>7\<close>, the
  session having no current entry. Either way the directory stays empty.
\<close>

theorem manual_add_writes_nothing:
  "run True
     (None, \<lparr>user_data = \<lparr>session = None, manual_add = False, manual_name = None,
                            manual_floor = None\<rparr>, employees = Map.empty\<rparr>)
     [Command (ascii ''add''), Text [1080, 1074, 1072, 1085, 1086, 1074],
      Text (ascii ''7''), Text (ascii ''7.47'')]
   = ((None, \<lparr>user_data = \<lparr>session = None, manual_add = True, manual_name = None,
                              manual_floor = None\<rparr>, employees = Map.empty\<rparr>),
      [(Returns ASK_FLOOR, [AskSurname]), (Returns END, [UnrecognizedFormat]),
       (Returns END, [UnrecognizedFormat]), (Returns END, [UnrecognizedFormat])]) \<and>
   run False
     (None, \<lparr>user_data = \<lparr>session = None, manual_add = False, manual_name = None,
                            manual_floor = None\<rparr>, employees = Map.empty\<rparr>)
     [Command (ascii ''add''), Text [1080, 1074, 1072, 1085, 1086, 1074],
      Text (ascii ''7''), Text (ascii ''7.47'')]
   = ((Some ASK_FLOOR,
       \<lparr>user_data = \<lparr>session = Some empty_session, manual_add = True, manual_name = None,
                       manual_floor = None\<rparr>, employees = Map.empty\<rparr>),
      [(Returns ASK_FLOOR, [AskSurname]), (Returns ASK_FLOOR, [RepromptFloor]),
       (Raises TypeError, []), (Returns ASK_FLOOR, [RepromptFloor])])"
proof -
  have p1: "parse_delivery (strip [1080, 1074, 1072, 1085, 1086, 1074]) = Inr []"
    by (simp add: parse_eval)
  have p2: "parse_delivery (strip (ascii ''7'')) = Inr []"
    by (simp add: parse_eval)
  have p3: "parse_delivery (strip (ascii ''7.47'')) = Inr []"
    by (simp add: parse_eval)
  have d1: "\<not> isdigit (strip [1080, 1074, 1072, 1085, 1086, 1074])"
    by (simp add: isdigit_def is_digit_def is_decimal_def to_decimal_def decimal_blocks_def
        other_digit_ranges_def strip_def is_space_def)
  have d2: "isdigit (strip (ascii ''7''))"
    by (simp add: isdigit_def is_digit_def is_decimal_def to_decimal_def decimal_blocks_def
        ascii_def strip_def is_space_def)
  have d3: "\<not> isdigit (strip (ascii ''7.47''))"
    by (simp add: isdigit_def is_digit_def is_decimal_def to_decimal_def decimal_blocks_def
        other_digit_ranges_def ascii_def strip_def is_space_def)
  have i2: "py_int (strip (ascii ''7'')) = Some 7"
    by (simp add: key_eval strip_def)
  show ?thesis
    by (simp add: conv_step_def select_handler_def cmd_add_def handle_text_def got_floor_def
        p1 p2 p3 d1 d2 d3 i2 session_eval Let_def)
qed

section \<open>The parser never raises, and decimal numbers are valid floor inputs\<close>

lemma decimal_not_space: "is_decimal c \<Longrightarrow> \<not> is_space c"
proof
  assume d: "is_decimal c" and s: "is_space c"
  from d have ge: "48 \<le> c"
    by (auto simp: is_decimal_def dest: to_decimal_ge)
  from s ge consider "c = 0x85" | "c = 0xA0" | "c = 0x1680" | "0x2000 \<le> c \<and> c \<le> 0x200A"
    | "c = 0x2028" | "c = 0x2029" | "c = 0x202F" | "c = 0x205F" | "c = 0x3000"
    by (auto simp: is_space_def)
  then have "to_decimal c = None"
    by cases (simp_all add: to_decimal_def decimal_blocks_def)
  with d show False
    by (simp add: is_decimal_def)
qed

lemma decimal_not_dash: "is_decimal c \<Longrightarrow> \<not> is_dash c"
proof
  assume d: "is_decimal c" and s: "is_dash c"
  from d have ge: "48 \<le> c"
    by (auto simp: is_decimal_def dest: to_decimal_ge)
  from s ge consider "c = 0x2013" | "c = 0x2014"
    by (auto simp: is_dash_def)
  then have "to_decimal c = None"
    by cases (simp_all add: to_decimal_def decimal_blocks_def)
  with d show False
    by (simp add: is_decimal_def)
qed

lemma space_not_dash: "is_space c \<Longrightarrow> \<not> is_dash c"
  by (auto simp: is_space_def is_dash_def)

lemma letter_not_space: "is_letter c \<Longrightarrow> \<not> is_space c"
  by (auto simp: is_letter_def is_space_def)

lemma int_digits_decimal:
  "list_all is_decimal s \<Longrightarrow> s \<noteq> [] \<or> prev \<Longrightarrow> \<exists>v. int_digits acc prev s = Some v"
proof (induction s arbitrary: acc prev)
  case Nil
  then show ?case by simp
next
  case (Cons c cs)
  from Cons.prems(1) have c: "is_decimal c" and rest: "list_all is_decimal cs"
    by simp_all
  from c obtain d where d: "to_decimal c = Some d"
    by (auto simp: is_decimal_def)
  from Cons.IH[OF rest, of True "acc * 10 + int d"] d show ?case
    by simp
qed

lemma trim_decimal:
  assumes "list_all is_decimal s"
  shows "rev (dropWhile is_int_space (rev (dropWhile is_int_space s))) = s"
proof -
  have ns: "\<not> is_int_space c" if "c \<in> set s" for c
    using that assms by (auto simp: list_all_iff is_int_space_def dest: decimal_not_space)
  have "dropWhile is_int_space xs = xs" if "set xs \<subseteq> set s" for xs
    using that ns by (cases xs) auto
  then show ?thesis
    by simp
qed

lemma decimal_text_valid:
  assumes "s \<noteq> []" and "list_all is_decimal s"
  shows "isdigit s \<and> (\<exists>v. py_int s = Some v \<and> 0 \<le> v)"
proof -
  have dig: "isdigit s"
    using assms by (auto simp: isdigit_def is_digit_def list_all_iff)
  from assms(1) obtain c cs where s: "s = c # cs"
    by (cases s) auto
  with assms(2) have ge: "48 \<le> c"
    by (auto simp: is_decimal_def dest: to_decimal_ge)
  from int_digits_decimal[OF assms(2), of False 0] assms(1)
  obtain v where v: "int_digits 0 False s = Some v"
    by auto
  have t: "rev (dropWhile is_int_space (rev (dropWhile is_int_space s))) = c # cs"
    using trim_decimal[OF assms(2)] s by simp
  have "py_int s = int_digits 0 False (c # cs)"
    unfolding py_int_def t using ge by simp
  with v s have "py_int s = Some v"
    by simp
  with dig py_int_isdigit_nonneg[OF dig] show ?thesis
    by blast
qed

lemma lazy_name_prefix: "lazy_name acc cs = Some (g1, g2) \<Longrightarrow> \<exists>rest. g1 = acc @ rest"
  by (induction acc cs rule: lazy_name.induct) (auto split: if_splits option.splits)

lemma split_ws_acc_nonempty: "acc \<noteq> [] \<Longrightarrow> split_ws_acc acc s \<noteq> []"
  by (induction acc s rule: split_ws_acc.induct) auto

lemma split_ws_token: "\<not> is_space c \<Longrightarrow> split_ws (c # cs) \<noteq> []"
  by (simp add: split_ws_def split_ws_acc_nonempty)

lemma dropWhile_keeps_last: "\<not> P c \<Longrightarrow> \<exists>ys. dropWhile P (xs @ [c]) = ys @ [c]"
  by (induction xs) auto

lemma strip_keeps_head: "\<not> is_space c \<Longrightarrow> \<exists>rest. strip (c # cs) = c # rest"
proof -
  assume c: "\<not> is_space c"
  from dropWhile_keeps_last[of is_space c "rev cs", OF c] obtain ys
    where "dropWhile is_space (rev cs @ [c]) = ys @ [c]" ..
  with c show ?thesis
    by (simp add: strip_def)
qed

lemma re_match_name_token:
  assumes "re_match line = Some (g1, g2)"
  shows "split_ws (strip g1) \<noteq> []"
proof -
  from assms obtain c cs where l: "line = c # cs" and c: "is_letter c"
    and n: "lazy_name [c] cs = Some (g1, g2)"
    by (cases line) (auto simp: re_match_def split: if_splits)
  from lazy_name_prefix[OF n] obtain rest where "g1 = c # rest"
    by auto
  with strip_keeps_head[OF letter_not_space[OF c], of rest] obtain rest' where "strip g1 = c # rest'"
    by auto
  with split_ws_token[OF letter_not_space[OF c]] show ?thesis
    by simp
qed

lemma parse_lines_total: "\<exists>r. parse_lines ls results = Inr r"
proof (induction ls arbitrary: results)
  case Nil
  show ?case by simp
next
  case (Cons l ls)
  show ?case
  proof (cases "re_match (strip l)")
    case None
    with Cons show ?thesis by (simp add: Let_def)
  next
    case (Some g)
    obtain g1 g2 where g: "g = (g1, g2)"
      by (cases g)
    with Some re_match_name_token obtain tok toks where "split_ws (strip g1) = tok # toks"
      by (cases "split_ws (strip g1)") auto
    with Some g Cons show ?thesis
      by (simp add: Let_def)
  qed
qed

lemma parse_delivery_total: "\<exists>r. parse_delivery msg = Inr r"
  unfolding parse_delivery_def by (rule parse_lines_total)

end
